theory Spec2Isabelle
  imports Main "HOL-Library.Word" "HOL-Library.Sublist" "HOL-Library.Multiset"
begin

section \<open>JavaScript values used by the two components\<close>

text \<open>
  A JavaScript string is a sequence of UTF-16 code units; \<open>s.length\<close> counts code units.
  String literals of the source are written with \<open>lit\<close>.
\<close>

type_synonym jsstring = "16 word list"

definition lit :: "string \<Rightarrow> jsstring" where
  "lit s = map (\<lambda>c. of_nat (of_char c)) s"

text \<open>
  \<open>String.prototype.trim\<close> removes the code units of ECMAScript's WhiteSpace and
  LineTerminator productions from both ends.
\<close>

definition isWhiteSpace :: "16 word \<Rightarrow> bool" where
  "isWhiteSpace c \<longleftrightarrow>
     c \<in> {0x0009, 0x000A, 0x000B, 0x000C, 0x000D, 0x0020, 0x00A0, 0x1680,
           0x2028, 0x2029, 0x202F, 0x205F, 0x3000, 0xFEFF}
     \<or> (0x2000 \<le> c \<and> c \<le> 0x200A)"

definition trim :: "jsstring \<Rightarrow> jsstring" where
  "trim s = rev (dropWhile isWhiteSpace (rev (dropWhile isWhiteSpace s)))"

text \<open>\<open>s.includes(pat)\<close>: \<open>pat\<close> occurs in \<open>s\<close> as a contiguous run (case-sensitive).\<close>

fun includes_str :: "jsstring \<Rightarrow> jsstring \<Rightarrow> bool" where
  "includes_str [] pat = (pat = [])"
| "includes_str (c # s) pat = (prefix pat (c # s) \<or> includes_str s pat)"

text \<open>
  A string-valued state cell that may also hold \<open>undefined\<close> (\<open>None\<close>); \<open>!a\<close> is true for
  \<open>undefined\<close> and for the empty string.
\<close>

definition falsy :: "jsstring option \<Rightarrow> bool" where
  "falsy a \<longleftrightarrow> a = None \<or> a = Some []"

text \<open>
  A rejection or thrown value as the handlers read it: \<open>error.reason\<close> (set by the
  blockchain client on some failures, otherwise \<open>undefined\<close>) and \<open>error.message\<close>
  (\<open>undefined\<close> when the rejection carries no message).
\<close>

record js_error =
  reason :: "jsstring option"
  message :: "jsstring option"

definition Error :: "string \<Rightarrow> js_error" where
  "Error m = \<lparr>reason = None, message = Some (lit m)\<rparr>"

text \<open>\<open>error.reason || error.message\<close>: the reason unless it is undefined or empty.\<close>

definition reason_or_message :: "js_error \<Rightarrow> jsstring option" where
  "reason_or_message e =
     (case reason e of
        None \<Rightarrow> message e
      | Some r \<Rightarrow> if r = [] then message e else Some r)"

text \<open>A value spliced into a string (\<open>"..." + v\<close>, or a template literal).\<close>

definition ToString :: "jsstring option \<Rightarrow> jsstring" where
  "ToString v = (case v of None \<Rightarrow> lit ''undefined'' | Some s \<Rightarrow> s)"

text \<open>
  Calling a method on \<open>contract\<close> while it is \<open>null\<close> throws a TypeError inside the
  \<open>try\<close> block, before any argument is evaluated (message text as V8 prints it).
\<close>

definition TypeError_null :: "string \<Rightarrow> js_error" where
  "TypeError_null prop = Error (''Cannot read properties of null (reading '' @ [CHR 0x27] @ prop @ [CHR 0x27] @ '')'')"

section \<open>Data model\<close>

text \<open>
  A task as returned by \<open>getMyTask\<close>. An id is an unsigned integer of the contract
  interface, of at most 256 bits.
\<close>

record task =
  task_id :: "256 word"
  taskTitle :: jsstring
  taskText :: jsstring
  isDeleted :: bool

record draft =
  draft_title :: jsstring
  draft_text :: jsstring

datatype contract_handle = Contract jsstring

record log_event =
  event :: "jsstring option"

record tx_receipt =
  events :: "log_event list option"

record tx =
  wait :: "js_error + tx_receipt"

text \<open>
  The wallet provider and the ledger contract: what each awaited call resolves to
  (\<open>Inr\<close>) or rejects with (\<open>Inl\<close>).
\<close>

record env =
  window_ethereum :: bool
  provider_getNetwork :: "js_error + int"
  ethereum_request :: "js_error + jsstring list"
  provider_getCode :: "jsstring \<Rightarrow> js_error + jsstring"
  contract_getMyTask :: "js_error + task list"
  contract_addTask :: "jsstring \<Rightarrow> jsstring \<Rightarrow> bool \<Rightarrow> nat \<Rightarrow> js_error + tx"
  contract_deleteTask :: "256 word \<Rightarrow> nat \<Rightarrow> js_error + tx"

text \<open>Interactions with the wallet provider and the contract, in the order issued.\<close>

datatype call =
    GetNetwork
  | RequestAccounts
  | GetCode jsstring
  | GetMyTask
  | AddTask jsstring jsstring bool nat
  | DeleteTask "256 word" nat
  | Wait

text \<open>
  The notifications requested, in order. \<open>ToastErrorUndefined\<close> is \<open>toast.error(undefined)\<close>:
  the error shown had neither a reason nor a message.
\<close>

datatype toast =
    ToastError jsstring
  | ToastInfo jsstring
  | ToastSuccess jsstring
  | ToastErrorUndefined

section \<open>The TaskApp component (src/unnamed/part_000)\<close>

text \<open>
  The \<open>useState\<close> cells of the component. A handler is a closure of one render: it
  reads the cells as they were at that render (argument \<open>r\<close> of each function below)
  and its setters write the live state, carried in \<open>world\<close> together with the toasts
  shown and the calls issued.
\<close>

record component =
  account :: "jsstring option"
  contract :: "contract_handle option"
  tasks :: "task list"
  newTask :: draft
  loading :: bool
  isInitialized :: bool

record world =
  comp :: component
  toasts :: "toast list"
  calls :: "call list"

definition setAccount :: "jsstring option \<Rightarrow> world \<Rightarrow> world" where
  "setAccount a w = w\<lparr>comp := (comp w)\<lparr>account := a\<rparr>\<rparr>"

definition setContract :: "contract_handle option \<Rightarrow> world \<Rightarrow> world" where
  "setContract c w = w\<lparr>comp := (comp w)\<lparr>contract := c\<rparr>\<rparr>"

definition setTasks :: "task list \<Rightarrow> world \<Rightarrow> world" where
  "setTasks ts w = w\<lparr>comp := (comp w)\<lparr>tasks := ts\<rparr>\<rparr>"

definition setNewTask :: "draft \<Rightarrow> world \<Rightarrow> world" where
  "setNewTask d w = w\<lparr>comp := (comp w)\<lparr>newTask := d\<rparr>\<rparr>"

definition setLoading :: "bool \<Rightarrow> world \<Rightarrow> world" where
  "setLoading b w = w\<lparr>comp := (comp w)\<lparr>loading := b\<rparr>\<rparr>"

definition toast_error :: "jsstring \<Rightarrow> world \<Rightarrow> world" where
  "toast_error m w = w\<lparr>toasts := toasts w @ [ToastError m]\<rparr>"

text \<open>\<open>toast.error(v)\<close> for a value that may be undefined.\<close>

definition toast_error_value :: "jsstring option \<Rightarrow> world \<Rightarrow> world" where
  "toast_error_value v w =
     (case v of
        None \<Rightarrow> w\<lparr>toasts := toasts w @ [ToastErrorUndefined]\<rparr>
      | Some m \<Rightarrow> toast_error m w)"

definition toast_info :: "jsstring \<Rightarrow> world \<Rightarrow> world" where
  "toast_info m w = w\<lparr>toasts := toasts w @ [ToastInfo m]\<rparr>"

definition toast_success :: "jsstring \<Rightarrow> world \<Rightarrow> world" where
  "toast_success m w = w\<lparr>toasts := toasts w @ [ToastSuccess m]\<rparr>"

definition issue :: "call \<Rightarrow> world \<Rightarrow> world" where
  "issue c w = w\<lparr>calls := calls w @ [c]\<rparr>"

definition contractAddress :: jsstring where
  "contractAddress = lit ''0x17282d6Ad90e84E24ee68fe68fD01014D9B8d7B3''"

definition expectedNetwork :: int where
  "expectedNetwork = 1"

text \<open>
  The comparator \<open>b.id - a.id\<close> of \<open>loadTasks\<close> works on doubles: each id is converted
  to a Number (a big-number object through its decimal string) and the two Numbers are
  subtracted. Either step yields the nearest value with 53 significant bits, ties to the
  even one; values below \<open>2^256\<close> are far from overflow.
\<close>

fun bit_len :: "nat \<Rightarrow> nat" where
  "bit_len n = (if n = 0 then 0 else Suc (bit_len (n div 2)))"

declare bit_len.simps [simp del]

definition round_double :: "nat \<Rightarrow> nat" where
  "round_double n =
     (let e = bit_len n - 53; q = n div 2 ^ e; r = n mod 2 ^ e
      in if 2 * r < 2 ^ e \<or> (2 * r = 2 ^ e \<and> even q) then q * 2 ^ e else (q + 1) * 2 ^ e)"

definition toNumber :: "256 word \<Rightarrow> nat" where
  "toNumber i = round_double (unat i)"

definition double_sub :: "nat \<Rightarrow> nat \<Rightarrow> int" where
  "double_sub x y =
     (if y \<le> x then int (round_double (x - y)) else - int (round_double (y - x)))"

text \<open>
  \<open>Array.prototype.sort(cmp)\<close> is stable; \<open>a\<close> stays before \<open>b\<close> unless
  \<open>cmp(a, b) > 0\<close>. For a consistent comparator the result is that of a stable
  insertion sort.
\<close>

fun insert_cmp :: "('a \<Rightarrow> 'a \<Rightarrow> int) \<Rightarrow> 'a \<Rightarrow> 'a list \<Rightarrow> 'a list" where
  "insert_cmp cmp x [] = [x]"
| "insert_cmp cmp x (y # ys) = (if cmp x y \<le> 0 then x # y # ys else y # insert_cmp cmp x ys)"

fun sort_cmp :: "('a \<Rightarrow> 'a \<Rightarrow> int) \<Rightarrow> 'a list \<Rightarrow> 'a list" where
  "sort_cmp cmp [] = []"
| "sort_cmp cmp (x # xs) = insert_cmp cmp x (sort_cmp cmp xs)"

definition checkNetwork :: "env \<Rightarrow> world \<Rightarrow> world \<times> bool" where
  "checkNetwork env w =
     (case provider_getNetwork env of
        Inr chainId \<Rightarrow>
          if chainId \<noteq> expectedNetwork
          then (toast_error (lit ''Please connect to the correct network!'') (issue GetNetwork w), False)
          else (issue GetNetwork w, True)
      | Inl error \<Rightarrow> (issue GetNetwork w, False))"

definition loadTasks :: "component \<Rightarrow> env \<Rightarrow> contract_handle option \<Rightarrow> world \<Rightarrow> world" where
  "loadTasks r env taskContract w =
     (if falsy (account r) \<or> taskContract = None then w
      else
        let w1 = issue GetMyTask (setLoading True w) in
        (case contract_getMyTask env of
           Inr allTasks \<Rightarrow>
             let activeTasks =
               sort_cmp (\<lambda>a b. double_sub (toNumber (task_id b)) (toNumber (task_id a)))
                 (filter (\<lambda>task. \<not> isDeleted task) allTasks)
             in setLoading False (setTasks activeTasks w1)
         | Inl error \<Rightarrow>
             setLoading False
               (toast_error (lit ''Error loading tasks: '' @ ToString (reason_or_message error)) w1)))"

definition handleAccountChange :: "component \<Rightarrow> env \<Rightarrow> jsstring list \<Rightarrow> world \<Rightarrow> world" where
  "handleAccountChange r env accounts w =
     (case accounts of
        [] \<Rightarrow> toast_info (lit ''Wallet disconnected'') (setTasks [] (setAccount (Some []) w))
      | a # _ \<Rightarrow>
          let w1 = setAccount (Some a) w in
          (case contract r of
             None \<Rightarrow> w1
           | Some c \<Rightarrow> loadTasks r env (contract r) w1))"

text \<open>The \<open>catch\<close> and \<open>finally\<close> blocks of \<open>connectWallet\<close>.\<close>

definition connectWallet_catch :: "js_error \<Rightarrow> world \<Rightarrow> world" where
  "connectWallet_catch error w =
     setLoading False
       (toast_error
          (case message error of
             None \<Rightarrow> lit ''Failed to connect wallet''
           | Some m \<Rightarrow> if m = [] then lit ''Failed to connect wallet'' else m) w)"

definition connectWallet :: "component \<Rightarrow> env \<Rightarrow> world \<Rightarrow> world" where
  "connectWallet r env w =
     (if window_ethereum env then
        (case checkNetwork env (setLoading True w) of
           (w2, isCorrectNetwork) \<Rightarrow>
             if isCorrectNetwork then
               (case ethereum_request env of
                  Inl error \<Rightarrow> connectWallet_catch error (issue RequestAccounts w2)
                | Inr accounts \<Rightarrow>
                    let taskContract = Contract contractAddress;
                        w4 = issue (GetCode contractAddress) (issue RequestAccounts w2)
                    in
                    (case provider_getCode env contractAddress of
                       Inl error \<Rightarrow> connectWallet_catch error w4
                     | Inr code \<Rightarrow>
                         if code = lit ''0x''
                         then connectWallet_catch (Error ''Contract not deployed at specified address'') w4
                         else
                           let w5 = setContract (Some taskContract)
                                      (setAccount (case accounts of [] \<Rightarrow> None | a # _ \<Rightarrow> Some a) w4);
                               w6 = loadTasks r env (Some taskContract) w5
                           in setLoading False (toast_success (lit ''Wallet connected successfully!'') w6)))
             else setLoading False w2)
      else connectWallet_catch (Error ''MetaMask is not installed'') w)"

definition validateTaskInput :: "component \<Rightarrow> world \<Rightarrow> world \<times> bool" where
  "validateTaskInput r w =
     (if trim (draft_title (newTask r)) = []
      then (toast_error (lit ''Task title cannot be empty'') w, False)
      else if trim (draft_text (newTask r)) = []
      then (toast_error (lit ''Task description cannot be empty'') w, False)
      else if length (draft_title (newTask r)) > 100
      then (toast_error (lit ''Task title too long (max 100 characters)'') w, False)
      else if length (draft_text (newTask r)) > 500
      then (toast_error (lit ''Task description too long (max 500 characters)'') w, False)
      else (w, True))"

text \<open>\<open>receipt.events?.find((e) => e.event === name)\<close>\<close>

definition find_event :: "jsstring \<Rightarrow> tx_receipt \<Rightarrow> log_event option" where
  "find_event name receipt =
     (case events receipt of
        None \<Rightarrow> None
      | Some es \<Rightarrow> find (\<lambda>e. event e = Some name) es)"

text \<open>The \<open>catch\<close> and \<open>finally\<close> blocks of \<open>addTask\<close>.\<close>

definition addTask_catch :: "js_error \<Rightarrow> world \<Rightarrow> world" where
  "addTask_catch error w = setLoading False (toast_error_value (reason_or_message error) w)"

definition addTask :: "component \<Rightarrow> env \<Rightarrow> world \<Rightarrow> world" where
  "addTask r env w =
     (if falsy (account r) then toast_error (lit ''Please connect your wallet first'') w
      else
        (case validateTaskInput r w of
           (w1, valid) \<Rightarrow>
             if valid then
               (case contract r of
                  None \<Rightarrow> addTask_catch (TypeError_null ''addTask'') (setLoading True w1)
                | Some c \<Rightarrow>
                    let text_arg = trim (draft_text (newTask r));
                        title_arg = trim (draft_title (newTask r));
                        w3 = issue (AddTask text_arg title_arg False 200000) (setLoading True w1)
                    in
                    (case contract_addTask env text_arg title_arg False 200000 of
                       Inl error \<Rightarrow> addTask_catch error w3
                     | Inr t \<Rightarrow>
                         let w5 = issue Wait
                                    (toast_info (lit ''Adding task... Please wait for confirmation'') w3)
                         in
                         (case wait t of
                            Inl error \<Rightarrow> addTask_catch error w5
                          | Inr receipt \<Rightarrow>
                              (case find_event (lit ''AddTask'') receipt of
                                 None \<Rightarrow>
                                   addTask_catch (Error ''Add task event not found in transaction'') w5
                               | Some ev \<Rightarrow>
                                   setLoading False
                                     (loadTasks r env (contract r)
                                        (setNewTask \<lparr>draft_title = [], draft_text = []\<rparr>
                                           (toast_success (lit ''Task added successfully!'') w5)))))))
             else w1))"

text \<open>
  The \<open>catch\<close> and \<open>finally\<close> blocks of \<open>deleteTask\<close>. When the error has no message,
  \<open>error.message.includes\<close> itself throws inside the \<open>catch\<close> block: nothing is shown and
  only \<open>finally\<close> runs.
\<close>

definition deleteTask_catch :: "js_error \<Rightarrow> world \<Rightarrow> world" where
  "deleteTask_catch error w =
     (case message error of
        None \<Rightarrow> setLoading False w
      | Some m \<Rightarrow>
          setLoading False
            (if includes_str m (lit ''owner'')
             then toast_error (lit ''You are not the owner of this task'') w
             else toast_error_value (reason_or_message error) w))"

definition deleteTask :: "component \<Rightarrow> env \<Rightarrow> 256 word \<Rightarrow> world \<Rightarrow> world" where
  "deleteTask r env taskId w =
     (if falsy (account r) then toast_error (lit ''Please connect your wallet first'') w
      else
        (case contract r of
           None \<Rightarrow> deleteTask_catch (TypeError_null ''deleteTask'') (setLoading True w)
         | Some c \<Rightarrow>
             let w2 = issue (DeleteTask taskId 100000) (setLoading True w) in
             (case contract_deleteTask env taskId 100000 of
                Inl error \<Rightarrow> deleteTask_catch error w2
              | Inr t \<Rightarrow>
                  let w4 = issue Wait
                             (toast_info (lit ''Deleting task... Please wait for confirmation'') w2)
                  in
                  (case wait t of
                     Inl error \<Rightarrow> deleteTask_catch error w4
                   | Inr receipt \<Rightarrow>
                       (case find_event (lit ''DeleteTask'') receipt of
                          None \<Rightarrow>
                            deleteTask_catch (Error ''Delete task event not found in transaction'') w4
                        | Some ev \<Rightarrow>
                            setLoading False
                              (loadTasks r env (contract r)
                                 (toast_success (lit ''Task deleted successfully!'') w4)))))))"

section \<open>The App component (src/src/App.jsx)\<close>

record app_component =
  app_contract :: "contract_handle option"
  app_account :: "jsstring option"
  app_tasks :: "task list"
  app_loading :: bool
  app_error :: jsstring
  app_newTask :: draft

record app_world =
  app_comp :: app_component
  app_calls :: "call list"

definition fetchTasks :: "app_component \<Rightarrow> env \<Rightarrow> app_world \<Rightarrow> app_world" where
  "fetchTasks r env w =
     (case app_contract r of
        None \<Rightarrow> w
      | Some c \<Rightarrow>
          let w1 = w\<lparr>app_comp := (app_comp w)\<lparr>app_loading := True\<rparr>,
                     app_calls := app_calls w @ [GetMyTask]\<rparr>
          in
          (case contract_getMyTask env of
             Inr taskList \<Rightarrow>
               w1\<lparr>app_comp := (app_comp w1)\<lparr>app_tasks := filter (\<lambda>task. \<not> isDeleted task) taskList,
                                            app_loading := False\<rparr>\<rparr>
           | Inl err \<Rightarrow>
               w1\<lparr>app_comp := (app_comp w1)\<lparr>app_error := lit ''Failed to fetch tasks: '' @ ToString (message err),
                                            app_loading := False\<rparr>\<rparr>))"

text \<open>The \<open>accountsChanged\<close> listener registered by \<open>initializeWeb3\<close>: \<open>setAccount(accounts[0])\<close>.\<close>

definition accountsChanged_listener :: "jsstring list \<Rightarrow> app_world \<Rightarrow> app_world" where
  "accountsChanged_listener accounts w =
     w\<lparr>app_comp := (app_comp w)\<lparr>app_account := (case accounts of [] \<Rightarrow> None | a # _ \<Rightarrow> Some a)\<rparr>\<rparr>"

section \<open>Vocabulary of the properties\<close>

text \<open>
  The four notifications by which \<open>validateTaskInput\<close> reports an invalid draft.
\<close>

definition validation_messages :: "jsstring list" where
  "validation_messages =
     [lit ''Task title cannot be empty'', lit ''Task description cannot be empty'',
      lit ''Task title too long (max 100 characters)'',
      lit ''Task description too long (max 500 characters)'']"

text \<open>
  A draft that passes every check of \<open>validateTaskInput\<close>.
\<close>

definition valid_draft :: "draft \<Rightarrow> bool" where
  "valid_draft d \<longleftrightarrow>
     trim (draft_title d) \<noteq> [] \<and> trim (draft_text d) \<noteq> []
     \<and> length (draft_title d) \<le> 100 \<and> length (draft_text d) \<le> 500"

text \<open>
  The names of the events of a receipt (none when \<open>receipt.events\<close> is undefined).
\<close>

definition event_names :: "tx_receipt \<Rightarrow> jsstring option list" where
  "event_names receipt = (case events receipt of None \<Rightarrow> [] | Some es \<Rightarrow> map event es)"

text \<open>
  The error with which a mutation is rejected at the contract boundary: the submission
  itself rejects, or the transaction is submitted and \<open>tx.wait()\<close> rejects.
\<close>

definition boundary_rejection :: "js_error + tx \<Rightarrow> js_error option" where
  "boundary_rejection res =
     (case res of
        Inl e \<Rightarrow> Some e
      | Inr t \<Rightarrow> (case wait t of Inl e \<Rightarrow> Some e | Inr receipt \<Rightarrow> None))"

section \<open>Example inputs\<close>

definition ex_task :: "256 word \<Rightarrow> bool \<Rightarrow> task" where
  "ex_task n d = \<lparr>task_id = n, taskTitle = lit ''T'', taskText = lit ''D'', isDeleted = d\<rparr>"

definition ex_component :: component where
  "ex_component = \<lparr>account = Some (lit ''0xAAA''), contract = Some (Contract contractAddress),
     tasks = [ex_task 1 False], newTask = \<lparr>draft_title = lit ''A'', draft_text = lit ''B''\<rparr>,
     loading = False, isInitialized = True\<rparr>"

definition ex_world :: world where
  "ex_world = \<lparr>comp = ex_component, toasts = [], calls = []\<rparr>"

definition ex_disconnected :: world where
  "ex_disconnected = \<lparr>comp = \<lparr>account = Some [], contract = None, tasks = [],
      newTask = \<lparr>draft_title = [], draft_text = []\<rparr>, loading = False, isInitialized = False\<rparr>,
      toasts = [], calls = []\<rparr>"

definition ex_receipt :: "string \<Rightarrow> tx_receipt" where
  "ex_receipt name = \<lparr>events = Some [\<lparr>event = Some (lit name)\<rparr>]\<rparr>"

definition ex_env :: env where
  "ex_env = \<lparr>window_ethereum = True, provider_getNetwork = Inr 1,
     ethereum_request = Inr [lit ''0xAAA''],
     provider_getCode = (\<lambda>a. Inr (lit ''0x6080'')),
     contract_getMyTask = Inr [ex_task 1 False, ex_task 2 True, ex_task 3 False],
     contract_addTask = (\<lambda>tx ti d g. Inr \<lparr>wait = Inr (ex_receipt ''AddTask'')\<rparr>),
     contract_deleteTask = (\<lambda>i g. Inr \<lparr>wait = Inr (ex_receipt ''DeleteTask'')\<rparr>)\<rparr>"

definition ex_app_world :: app_world where
  "ex_app_world = \<lparr>app_comp = \<lparr>app_contract = Some (Contract contractAddress),
      app_account = Some (lit ''0xAAA''), app_tasks = [ex_task 1 False], app_loading = False,
      app_error = [], app_newTask = \<lparr>draft_title = [], draft_text = []\<rparr>\<rparr>, app_calls = []\<rparr>"

text \<open>
  The world at the first suspension of \<open>deleteTask(3)\<close>: \<open>loading\<close> is set and the
  delete call has been issued, its confirmation is outstanding.
\<close>

definition ex_busy :: world where
  "ex_busy = issue (DeleteTask 3 100000) (setLoading True ex_world)"

section \<open>Basic facts\<close>

lemmas state_defs = setAccount_def setContract_def setTasks_def setNewTask_def setLoading_def
  toast_error_def toast_error_value_def toast_info_def toast_success_def issue_def

lemma calls_setLoading: "calls (setLoading b w) = calls w"
  by (simp add: setLoading_def)

lemma trim_eq_Nil: "trim s = [] \<longleftrightarrow> list_all isWhiteSpace s"
proof
  assume "trim s = []"
  then have all: "\<forall>c\<in>set (dropWhile isWhiteSpace s). isWhiteSpace c"
    by (simp add: trim_def)
  have "dropWhile isWhiteSpace s = []"
  proof (rule ccontr)
    assume ne: "dropWhile isWhiteSpace s \<noteq> []"
    then have "\<not> isWhiteSpace (hd (dropWhile isWhiteSpace s))"
      by (rule hd_dropWhile)
    moreover from ne have "hd (dropWhile isWhiteSpace s) \<in> set (dropWhile isWhiteSpace s)"
      by simp
    ultimately show False using all by blast
  qed
  then show "list_all isWhiteSpace s"
    by (simp add: list_all_iff)
next
  assume "list_all isWhiteSpace s"
  then have "dropWhile isWhiteSpace s = []"
    by (simp add: list_all_iff)
  then show "trim s = []"
    by (simp only: trim_def rev.simps dropWhile.simps)
qed

lemma includes_str_sublist: "includes_str s pat \<longleftrightarrow> sublist pat s"
  by (induction s) (simp_all add: sublist_Cons_right)

lemma find_event_None: "find_event name receipt = None \<longleftrightarrow> Some name \<notin> set (event_names receipt)"
  by (auto simp: find_event_def event_names_def find_None_iff image_iff split: option.splits)

subsection \<open>The comparator on doubles and the sort\<close>

lemma bit_len_le: "n < 2 ^ k \<Longrightarrow> bit_len n \<le> k"
proof (induction k arbitrary: n)
  case 0
  then have "n = 0" by simp
  then show ?case by (simp add: bit_len.simps)
next
  case (Suc k)
  show ?case
  proof (cases "n = 0")
    case True
    then show ?thesis by (simp add: bit_len.simps)
  next
    case False
    from Suc.prems have "n div 2 < 2 ^ k" by simp
    then have "bit_len (n div 2) \<le> k" by (rule Suc.IH)
    with False show ?thesis by (subst bit_len.simps) simp
  qed
qed

lemma bit_len_eq: "2 ^ k \<le> n \<Longrightarrow> n < 2 ^ Suc k \<Longrightarrow> bit_len n = Suc k"
proof (induction k arbitrary: n)
  case 0
  then have "n = 1" by simp
  then show ?case by (simp add: bit_len.simps)
next
  case (Suc k)
  from Suc.prems have "2 ^ k \<le> n div 2" and "n div 2 < 2 ^ Suc k" by simp_all
  then have "bit_len (n div 2) = Suc k" by (rule Suc.IH)
  moreover from Suc.prems have "n \<noteq> 0" by auto
  ultimately show ?case by (subst bit_len.simps) simp
qed

lemma round_double_small: "n < 2 ^ 53 \<Longrightarrow> round_double n = n"
proof -
  assume "n < 2 ^ 53"
  then have "bit_len n \<le> 53" by (rule bit_len_le)
  then have "bit_len n - 53 = 0" by simp
  then show ?thesis by (simp add: round_double_def)
qed

lemma toNumber_small: "unat i < 2 ^ 53 \<Longrightarrow> toNumber i = unat i"
  by (simp add: toNumber_def round_double_small)

lemma double_sub_small: "x < 2 ^ 53 \<Longrightarrow> y < 2 ^ 53 \<Longrightarrow> double_sub x y = int x - int y"
  by (simp add: double_sub_def round_double_small)

lemma round_double_tie: "round_double 9007199254740993 = 9007199254740992"
proof -
  have "bit_len 9007199254740993 = Suc 53"
    by (rule bit_len_eq) simp_all
  then show ?thesis by (simp add: round_double_def)
qed

lemma round_double_2_53: "round_double 9007199254740992 = 9007199254740992"
proof -
  have "bit_len 9007199254740992 = Suc 53"
    by (rule bit_len_eq) simp_all
  then show ?thesis by (simp add: round_double_def)
qed

lemma mset_insert_cmp: "mset (insert_cmp cmp x ys) = add_mset x (mset ys)"
  by (induction ys) simp_all

lemma mset_sort_cmp: "mset (sort_cmp cmp xs) = mset xs"
  by (induction xs) (simp_all add: mset_insert_cmp)

lemma sort_cmp_desc:
  assumes "\<forall>t\<in>set xs. unat (task_id t) < 2 ^ 53"
  shows "sort_cmp (\<lambda>a b. double_sub (toNumber (task_id b)) (toNumber (task_id a))) xs
           = sort_key (\<lambda>t. - uint (task_id t)) xs"
  using assms
proof (induction xs)
  case Nil
  show ?case by simp
next
  case (Cons x xs)
  have ins: "insert_cmp (\<lambda>a b. double_sub (toNumber (task_id b)) (toNumber (task_id a))) x ys
      = insort_key (\<lambda>t. - uint (task_id t)) x ys"
    if "\<forall>t\<in>set ys. unat (task_id t) < 2 ^ 53" for ys
    using that Cons.prems
    by (induction ys) (simp_all add: toNumber_small double_sub_small)
  from Cons.prems have "\<forall>t\<in>set (sort_key (\<lambda>t. - uint (task_id t)) xs). unat (task_id t) < 2 ^ 53"
    by simp
  with Cons show ?case by (simp add: ins)
qed

lemma sorted_desc_sort_key:
  "sorted_wrt (\<lambda>a b. task_id b \<le> task_id a) (sort_key (\<lambda>t. - uint (task_id t)) xs)"
proof -
  have "sorted (map (\<lambda>t. - uint (task_id t)) (sort_key (\<lambda>t. - uint (task_id t)) xs))"
    by (rule sorted_sort_key)
  then show ?thesis
    by (simp add: sorted_map word_le_def)
qed


subsection \<open>Loading\<close>

lemma loadTasks_ok:
  assumes "\<not> falsy (account r)" and "taskContract = Some c" and "contract_getMyTask env = Inr allTasks"
  shows "loadTasks r env taskContract w =
     setLoading False (setTasks (sort_cmp (\<lambda>a b. double_sub (toNumber (task_id b)) (toNumber (task_id a)))
        (filter (\<lambda>task. \<not> isDeleted task) allTasks)) (issue GetMyTask (setLoading True w)))"
  using assms by (simp add: loadTasks_def)

lemma fetchTasks_ok:
  assumes "app_contract r = Some c" and "contract_getMyTask env = Inr allTasks"
  shows "app_tasks (app_comp (fetchTasks r env w)) = filter (\<lambda>task. \<not> isDeleted task) allTasks"
  using assms by (simp add: fetchTasks_def)

lemma calls_loadTasks:
  "calls (loadTasks r env tc w) = calls w \<or> calls (loadTasks r env tc w) = calls w @ [GetMyTask]"
  by (simp add: loadTasks_def state_defs Let_def split: sum.splits)

lemma calls_loadTasks_rest:
  "\<exists>rest. calls (loadTasks r env tc w) = calls w @ rest \<and> set rest \<subseteq> {GetMyTask}"
  using calls_loadTasks [of r env tc w] by auto

subsection \<open>Validation and the calls of a mutation\<close>

lemma validateTaskInput_valid: "valid_draft (newTask r) \<Longrightarrow> validateTaskInput r w = (w, True)"
  by (simp add: validateTaskInput_def valid_draft_def)

lemma validateTaskInput_invalid:
  "\<not> valid_draft (newTask r) \<Longrightarrow>
     \<exists>m\<in>set validation_messages. validateTaskInput r w = (toast_error m w, False)"
  by (auto simp: validateTaskInput_def valid_draft_def validation_messages_def)

lemma addTask_invalid:
  assumes "\<not> falsy (account r)" and "\<not> valid_draft (newTask r)"
  shows "\<exists>m\<in>set validation_messages. addTask r env w = toast_error m w"
proof -
  from validateTaskInput_invalid [OF assms(2)]
  obtain m where "m \<in> set validation_messages" "validateTaskInput r w = (toast_error m w, False)"
    by blast
  with assms(1) show ?thesis by (auto simp: addTask_def)
qed

lemma addTask_no_account: "falsy (account r) \<Longrightarrow> addTask r env w = toast_error (lit ''Please connect your wallet first'') w"
  by (simp add: addTask_def)

lemma calls_deleteTask_catch: "calls (deleteTask_catch e w) = calls w"
  by (simp add: deleteTask_catch_def state_defs split: option.splits)

lemma calls_addTask_catch: "calls (addTask_catch e w) = calls w"
  by (simp add: addTask_catch_def state_defs split: option.splits)

lemma calls_deleteTask:
  assumes "\<not> falsy (account r)" and "contract r = Some c"
  shows "\<exists>rest. calls (deleteTask r env taskId w) = calls w @ DeleteTask taskId 100000 # rest
           \<and> set rest \<subseteq> {Wait, GetMyTask}"
proof (cases "contract_deleteTask env taskId 100000")
  case (Inl e)
  with assms show ?thesis
    by (simp add: deleteTask_def calls_deleteTask_catch Let_def) (simp add: state_defs)
next
  case (Inr t)
  show ?thesis
  proof (cases "wait t")
    case (Inl e)
    with Inr assms show ?thesis
      by (simp add: deleteTask_def calls_deleteTask_catch Let_def) (simp add: state_defs)
  next
    case wr: (Inr receipt)
    show ?thesis
    proof (cases "find_event (lit ''DeleteTask'') receipt")
      case None
      with wr Inr assms show ?thesis
        by (simp add: deleteTask_def calls_deleteTask_catch Let_def) (simp add: state_defs)
    next
      case (Some ev)
      obtain rest where rest: "calls (loadTasks r env (Some c)
            (toast_success (lit ''Task deleted successfully!'')
              (issue Wait (toast_info (lit ''Deleting task... Please wait for confirmation'')
                (issue (DeleteTask taskId 100000) (setLoading True w))))))
          = calls (toast_success (lit ''Task deleted successfully!'')
              (issue Wait (toast_info (lit ''Deleting task... Please wait for confirmation'')
                (issue (DeleteTask taskId 100000) (setLoading True w))))) @ rest"
        and sub: "set rest \<subseteq> {GetMyTask}"
        using calls_loadTasks_rest by blast
      from Some wr Inr assms have "calls (deleteTask r env taskId w)
          = calls w @ DeleteTask taskId 100000 # Wait # rest"
        by (simp add: deleteTask_def Let_def calls_setLoading rest) (simp add: state_defs)
      with sub show ?thesis by auto
    qed
  qed
qed

lemma calls_addTask:
  assumes "\<not> falsy (account r)" and "contract r = Some c" and "valid_draft (newTask r)"
  shows "\<exists>rest. calls (addTask r env w)
            = calls w @ AddTask (trim (draft_text (newTask r))) (trim (draft_title (newTask r))) False 200000 # rest
           \<and> set rest \<subseteq> {Wait, GetMyTask}"
proof (cases "contract_addTask env (trim (draft_text (newTask r))) (trim (draft_title (newTask r))) False 200000")
  case (Inl e)
  with assms show ?thesis
    by (simp add: addTask_def validateTaskInput_valid calls_addTask_catch Let_def) (simp add: state_defs)
next
  case (Inr t)
  show ?thesis
  proof (cases "wait t")
    case (Inl e)
    with Inr assms show ?thesis
      by (simp add: addTask_def validateTaskInput_valid calls_addTask_catch Let_def) (simp add: state_defs)
  next
    case wr: (Inr receipt)
    show ?thesis
    proof (cases "find_event (lit ''AddTask'') receipt")
      case None
      with wr Inr assms show ?thesis
        by (simp add: addTask_def validateTaskInput_valid calls_addTask_catch Let_def) (simp add: state_defs)
    next
      case (Some ev)
      define w7 where "w7 = setNewTask \<lparr>draft_title = [], draft_text = []\<rparr>
          (toast_success (lit ''Task added successfully!'')
            (issue Wait (toast_info (lit ''Adding task... Please wait for confirmation'')
              (issue (AddTask (trim (draft_text (newTask r))) (trim (draft_title (newTask r))) False 200000)
                 (setLoading True w)))))"
      obtain rest where rest: "calls (loadTasks r env (Some c) w7) = calls w7 @ rest"
        and sub: "set rest \<subseteq> {GetMyTask}"
        using calls_loadTasks_rest by blast
      have c7: "calls w7 = calls w @ [AddTask (trim (draft_text (newTask r))) (trim (draft_title (newTask r))) False 200000, Wait]"
        by (simp add: w7_def state_defs)
      from Some wr Inr assms have "addTask r env w = setLoading False (loadTasks r env (Some c) w7)"
        by (simp add: addTask_def validateTaskInput_valid Let_def w7_def)
      then have "calls (addTask r env w)
          = calls w @ AddTask (trim (draft_text (newTask r))) (trim (draft_title (newTask r))) False 200000 # Wait # rest"
        by (simp add: calls_setLoading rest c7)
      with sub show ?thesis by auto
    qed
  qed
qed

section \<open>Properties\<close>

subsection \<open>C1: what a load puts into the task list\<close>

text \<open>
  C1 says that the load operation leaves the list sorted by id, newest first. fetchTasks
  does not: for the returned set with ids 1, 2 (deleted), 3 the list it stores is 1, 3.
  loadTasks compares ids as doubles: the ids \<open>2^53\<close> and \<open>2^53 + 1\<close> convert to the same
  Number, the comparator yields 0, and the list stays in the ascending order returned.
\<close>

theorem load_not_sorted_counterexample:
  "app_contract (app_comp ex_app_world) \<noteq> None
   \<and> contract_getMyTask ex_env = Inr [ex_task 1 False, ex_task 2 True, ex_task 3 False]
   \<and> \<not> sorted_wrt (\<lambda>a b. task_id b \<le> task_id a)
         (app_tasks (app_comp (fetchTasks (app_comp ex_app_world) ex_env ex_app_world)))
   \<and> tasks (comp (loadTasks ex_component
         (ex_env\<lparr>contract_getMyTask :=
            Inr [ex_task 9007199254740992 False, ex_task 9007199254740993 False]\<rparr>)
         (Some (Contract contractAddress)) ex_world))
       = [ex_task 9007199254740992 False, ex_task 9007199254740993 False]
   \<and> \<not> sorted_wrt (\<lambda>a b. task_id b \<le> task_id a)
         [ex_task 9007199254740992 False, ex_task 9007199254740993 False]"
  by (simp add: fetchTasks_def loadTasks_def ex_env_def ex_app_world_def ex_component_def
      ex_world_def ex_task_def falsy_def lit_def state_defs toNumber_def double_sub_def
      round_double_tie round_double_2_53 round_double_small word_le_nat_alt)

text \<open>
  C1, as the code has it. When getMyTask returns a task set, loadTasks (TaskApp) replaces the
  local list with exactly the tasks whose isDeleted is false (same multiset) and, when the
  ids of these tasks are below \<open>2^53\<close>, in descending order of id, ties in the order
  returned; fetchTasks (App) replaces it with exactly the tasks whose isDeleted is false in
  the order the contract returned them, unsorted.
\<close>

theorem load_replaces_with_active_tasks:
  assumes "contract_getMyTask env = Inr allTasks"
    and "\<not> falsy (account r)" and "taskContract = Some c" and "app_contract r' = Some c'"
  shows "mset (tasks (comp (loadTasks r env taskContract w))) = mset (filter (\<lambda>t. \<not> isDeleted t) allTasks)
    \<and> ((\<forall>t\<in>set (filter (\<lambda>t. \<not> isDeleted t) allTasks). unat (task_id t) < 2 ^ 53) \<longrightarrow>
          sorted_wrt (\<lambda>a b. task_id b \<le> task_id a) (tasks (comp (loadTasks r env taskContract w)))
          \<and> tasks (comp (loadTasks r env taskContract w))
              = sort_key (\<lambda>t. - uint (task_id t)) (filter (\<lambda>t. \<not> isDeleted t) allTasks))
    \<and> app_tasks (app_comp (fetchTasks r' env w')) = filter (\<lambda>t. \<not> isDeleted t) allTasks"
proof -
  let ?act = "filter (\<lambda>t. \<not> isDeleted t) allTasks"
  have l: "tasks (comp (loadTasks r env taskContract w))
      = sort_cmp (\<lambda>a b. double_sub (toNumber (task_id b)) (toNumber (task_id a))) ?act"
    using assms by (simp add: loadTasks_ok state_defs)
  have m: "mset (tasks (comp (loadTasks r env taskContract w))) = mset ?act"
    unfolding l by (rule mset_sort_cmp)
  have s: "sorted_wrt (\<lambda>a b. task_id b \<le> task_id a) (tasks (comp (loadTasks r env taskContract w)))
      \<and> tasks (comp (loadTasks r env taskContract w)) = sort_key (\<lambda>t. - uint (task_id t)) ?act"
    if small: "\<forall>t\<in>set ?act. unat (task_id t) < 2 ^ 53"
    unfolding l sort_cmp_desc [OF small] by (simp add: sorted_desc_sort_key)
  have f: "app_tasks (app_comp (fetchTasks r' env w')) = ?act"
    using assms(4,1) by (rule fetchTasks_ok)
  from m s f show ?thesis by blast
qed

text \<open>
  The theorem at the returned set with ids 1, 2 (deleted), 3.
\<close>

theorem load_replaces_with_active_tasks_witness:
  "tasks (comp (loadTasks ex_component ex_env (Some (Contract contractAddress)) ex_world))
     = [ex_task 3 False, ex_task 1 False]
   \<and> app_tasks (app_comp (fetchTasks (app_comp ex_app_world) ex_env ex_app_world))
     = [ex_task 1 False, ex_task 3 False]"
  using load_replaces_with_active_tasks [of ex_env "[ex_task 1 False, ex_task 2 True, ex_task 3 False]"
      ex_component "Some (Contract contractAddress)" "Contract contractAddress"
      "app_comp ex_app_world" "Contract contractAddress" ex_world ex_app_world]
  by (simp add: ex_env_def ex_component_def ex_app_world_def ex_task_def falsy_def lit_def)

subsection \<open>C2: an invalid draft never reaches the network\<close>

text \<open>
  C2. For a draft with empty title, empty text, title longer than 100 or text longer than
  500, addTask issues no call and changes no state cell; with a connected account (the
  form exists only then) what it reports is one of the validation notifications.
\<close>

theorem invalid_draft_rejected_locally:
  assumes "draft_title (newTask r) = [] \<or> draft_text (newTask r) = []
           \<or> length (draft_title (newTask r)) > 100 \<or> length (draft_text (newTask r)) > 500"
  shows "calls (addTask r env w) = calls w \<and> comp (addTask r env w) = comp w
     \<and> (\<not> falsy (account r) \<longrightarrow>
          (\<exists>m\<in>set validation_messages. toasts (addTask r env w) = toasts w @ [ToastError m]))"
proof -
  from assms have inv: "\<not> valid_draft (newTask r)"
    by (auto simp: valid_draft_def trim_def)
  show ?thesis
  proof (cases "falsy (account r)")
    case True
    then show ?thesis by (simp add: addTask_no_account toast_error_def)
  next
    case False
    from addTask_invalid [OF False inv, of env w] show ?thesis
      using False by (auto simp: toast_error_def)
  qed
qed

text \<open>
  The theorem at a draft with an empty title.
\<close>

theorem invalid_draft_rejected_locally_witness:
  "calls (addTask (ex_component\<lparr>newTask := \<lparr>draft_title = [], draft_text = lit ''B''\<rparr>\<rparr>) ex_env ex_world) = []
   \<and> toasts (addTask (ex_component\<lparr>newTask := \<lparr>draft_title = [], draft_text = lit ''B''\<rparr>\<rparr>) ex_env ex_world)
       = [ToastError (lit ''Task title cannot be empty'')]"
  using invalid_draft_rejected_locally
    [of "ex_component\<lparr>newTask := \<lparr>draft_title = [], draft_text = lit ''B''\<rparr>\<rparr>" ex_env ex_world]
  by (simp add: ex_component_def ex_world_def falsy_def lit_def addTask_def validateTaskInput_def
      trim_def toast_error_def)

subsection \<open>C3: a confirmed add without its event\<close>

text \<open>
  C3. When the add transaction is submitted and confirmed but the receipt has no event
  named AddTask, addTask reports the failure (an error notification, no success), the
  draft keeps its value, and the task list is neither changed nor reloaded.
\<close>

theorem missing_AddTask_event_is_failure:
  assumes "\<not> falsy (account r)" and "valid_draft (newTask r)" and "contract r = Some c"
    and "contract_addTask env (trim (draft_text (newTask r))) (trim (draft_title (newTask r))) False 200000
           = Inr t"
    and "wait t = Inr receipt"
    and "Some (lit ''AddTask'') \<notin> set (event_names receipt)"
  shows "toasts (addTask r env w)
           = toasts w @ [ToastInfo (lit ''Adding task... Please wait for confirmation''),
                         ToastError (lit ''Add task event not found in transaction'')]
     \<and> newTask (comp (addTask r env w)) = newTask (comp w)
     \<and> tasks (comp (addTask r env w)) = tasks (comp w)
     \<and> GetMyTask \<notin> set (drop (length (calls w)) (calls (addTask r env w)))"
proof -
  from assms(6) have "find_event (lit ''AddTask'') receipt = None"
    by (simp add: find_event_None)
  with assms(1-5) show ?thesis
    by (simp add: addTask_def validateTaskInput_valid addTask_catch_def state_defs Let_def
        Error_def reason_or_message_def)
qed

text \<open>
  The theorem at a receipt whose only event is named Transfer.
\<close>

theorem missing_AddTask_event_is_failure_witness:
  "toasts (addTask ex_component
        (ex_env\<lparr>contract_addTask := (\<lambda>tx ti d g. Inr \<lparr>wait = Inr (ex_receipt ''Transfer'')\<rparr>)\<rparr>) ex_world)
     = [ToastInfo (lit ''Adding task... Please wait for confirmation''),
        ToastError (lit ''Add task event not found in transaction'')]
   \<and> newTask (comp (addTask ex_component
        (ex_env\<lparr>contract_addTask := (\<lambda>tx ti d g. Inr \<lparr>wait = Inr (ex_receipt ''Transfer'')\<rparr>)\<rparr>) ex_world))
     = \<lparr>draft_title = lit ''A'', draft_text = lit ''B''\<rparr>"
  using missing_AddTask_event_is_failure
    [of ex_component "Contract contractAddress"
        "ex_env\<lparr>contract_addTask := (\<lambda>tx ti d g. Inr \<lparr>wait = Inr (ex_receipt ''Transfer'')\<rparr>)\<rparr>"
        "\<lparr>wait = Inr (ex_receipt ''Transfer'')\<rparr>" "ex_receipt ''Transfer''" ex_world]
  by (simp add: ex_component_def ex_world_def ex_env_def ex_receipt_def falsy_def lit_def
      valid_draft_def trim_def isWhiteSpace_def event_names_def)

subsection \<open>C4: classifying a rejected delete\<close>

text \<open>
  C4 says that the classification follows the rejection reason. The code tests the
  message: a rejection with reason "caller is not the owner" and message "execution
  reverted" is shown as its raw reason, not as the not-owner notification; one with
  reason "insufficient funds" whose message mentions the owner is shown as not-owner.
\<close>

theorem deleteTask_tests_message_counterexample:
  "sublist (lit ''owner'') (lit ''caller is not the owner'')
   \<and> toasts (deleteTask ex_component
        (ex_env\<lparr>contract_deleteTask := (\<lambda>i g. Inl \<lparr>reason = Some (lit ''caller is not the owner''),
           message = Some (lit ''execution reverted'')\<rparr>)\<rparr>) 1 ex_world)
       = [ToastError (lit ''caller is not the owner'')]
   \<and> \<not> sublist (lit ''owner'') (lit ''insufficient funds'')
   \<and> toasts (deleteTask ex_component
        (ex_env\<lparr>contract_deleteTask := (\<lambda>i g. Inl \<lparr>reason = Some (lit ''insufficient funds''),
           message = Some (lit ''insufficient funds (owner balance 0)'')\<rparr>)\<rparr>) 1 ex_world)
       = [ToastError (lit ''You are not the owner of this task'')]"
proof -
  have "sublist (lit ''owner'') (lit ''caller is not the owner'')"
    by (simp add: lit_def flip: includes_str_sublist)
  moreover have "\<not> sublist (lit ''owner'') (lit ''insufficient funds'')"
    by (simp add: lit_def flip: includes_str_sublist)
  moreover have "toasts (deleteTask ex_component
        (ex_env\<lparr>contract_deleteTask := (\<lambda>i g. Inl \<lparr>reason = Some (lit ''caller is not the owner''),
           message = Some (lit ''execution reverted'')\<rparr>)\<rparr>) 1 ex_world)
       = [ToastError (lit ''caller is not the owner'')]"
    by (simp add: deleteTask_def deleteTask_catch_def reason_or_message_def ex_component_def
        ex_world_def ex_env_def falsy_def lit_def state_defs)
  moreover have "toasts (deleteTask ex_component
        (ex_env\<lparr>contract_deleteTask := (\<lambda>i g. Inl \<lparr>reason = Some (lit ''insufficient funds''),
           message = Some (lit ''insufficient funds (owner balance 0)'')\<rparr>)\<rparr>) 1 ex_world)
       = [ToastError (lit ''You are not the owner of this task'')]"
    by (simp add: deleteTask_def deleteTask_catch_def reason_or_message_def ex_component_def
        ex_world_def ex_env_def falsy_def lit_def state_defs)
  ultimately show ?thesis by blast
qed

text \<open>
  C4, as the code has it. When deleteTask is rejected at the contract boundary with an
  error that carries a message, the test is on that message (error.message), not on
  error.reason: if the message contains "owner" the not-owner notification is shown, and
  otherwise the underlying text (error.reason if it is non-empty, else the message). These
  are the only notifications added after the submission, the component state is the old
  one with loading reset, and the task list is not reloaded.
\<close>

theorem deleteTask_rejection_classified:
  assumes "\<not> falsy (account r)" and "contract r = Some c"
    and "boundary_rejection (contract_deleteTask env taskId 100000) = Some e"
    and "message e = Some m"
  shows "toasts (deleteTask r env taskId w)
           = toasts w
             @ (case contract_deleteTask env taskId 100000 of
                  Inl x \<Rightarrow> []
                | Inr t \<Rightarrow> [ToastInfo (lit ''Deleting task... Please wait for confirmation'')])
             @ [if sublist (lit ''owner'') m
                then ToastError (lit ''You are not the owner of this task'')
                else ToastError (case reason e of None \<Rightarrow> m | Some x \<Rightarrow> if x = [] then m else x)]
     \<and> comp (deleteTask r env taskId w) = (comp w)\<lparr>loading := False\<rparr>
     \<and> GetMyTask \<notin> set (drop (length (calls w)) (calls (deleteTask r env taskId w)))"
proof -
  have shown: "toasts (deleteTask_catch e v)
        = toasts v @ [if sublist (lit ''owner'') m
                      then ToastError (lit ''You are not the owner of this task'')
                      else ToastError (case reason e of None \<Rightarrow> m | Some x \<Rightarrow> if x = [] then m else x)]"
    and kept: "comp (deleteTask_catch e v) = (comp v)\<lparr>loading := False\<rparr>"
    and same: "calls (deleteTask_catch e v) = calls v" for v
    using assms(4)
    by (simp_all add: deleteTask_catch_def includes_str_sublist reason_or_message_def state_defs
        split: option.splits)
  show ?thesis
  proof (cases "contract_deleteTask env taskId 100000")
    case (Inl x)
    with assms(3) have x: "x = e" by (simp add: boundary_rejection_def)
    have d: "deleteTask r env taskId w
        = deleteTask_catch e (issue (DeleteTask taskId 100000) (setLoading True w))"
      using assms(1,2) Inl x by (simp add: deleteTask_def)
    show ?thesis
      unfolding d shown kept same using Inl by (simp add: state_defs)
  next
    case (Inr t)
    with assms(3) have t: "wait t = Inl e"
      by (simp add: boundary_rejection_def split: sum.splits)
    have d: "deleteTask r env taskId w
        = deleteTask_catch e (issue Wait
            (toast_info (lit ''Deleting task... Please wait for confirmation'')
               (issue (DeleteTask taskId 100000) (setLoading True w))))"
      using assms(1,2) Inr t by (simp add: deleteTask_def)
    show ?thesis
      unfolding d shown kept same using Inr by (simp add: state_defs)
  qed
qed

text \<open>
  The theorem at a revert whose message mentions the owner and at a rejected confirmation
  whose message does not.
\<close>

theorem deleteTask_rejection_classified_witness:
  "toasts (deleteTask ex_component
      (ex_env\<lparr>contract_deleteTask := (\<lambda>i g. Inl \<lparr>reason = Some (lit ''Not the owner''),
          message = Some (lit ''execution reverted: Not the owner'')\<rparr>)\<rparr>) 1 ex_world)
     = [ToastError (lit ''You are not the owner of this task'')]
   \<and> toasts (deleteTask ex_component
      (ex_env\<lparr>contract_deleteTask := (\<lambda>i g. Inr \<lparr>wait = Inl \<lparr>reason = None,
          message = Some (lit ''user rejected transaction'')\<rparr>\<rparr>)\<rparr>) 1 ex_world)
     = [ToastInfo (lit ''Deleting task... Please wait for confirmation''),
        ToastError (lit ''user rejected transaction'')]"
proof -
  let ?e1 = "\<lparr>reason = Some (lit ''Not the owner''),
      message = Some (lit ''execution reverted: Not the owner'')\<rparr>"
  let ?e2 = "\<lparr>reason = None, message = Some (lit ''user rejected transaction'')\<rparr>"
  let ?env1 = "ex_env\<lparr>contract_deleteTask := (\<lambda>i g. Inl ?e1)\<rparr>"
  let ?env2 = "ex_env\<lparr>contract_deleteTask := (\<lambda>i g. Inr \<lparr>wait = Inl ?e2\<rparr>)\<rparr>"
  have acc: "\<not> falsy (account ex_component)"
    and con: "contract ex_component = Some (Contract contractAddress)"
    by (simp_all add: ex_component_def falsy_def lit_def)
  have r1: "boundary_rejection (contract_deleteTask ?env1 1 100000) = Some ?e1"
    and r2: "boundary_rejection (contract_deleteTask ?env2 1 100000) = Some ?e2"
    by (simp_all add: boundary_rejection_def)
  have m1: "message ?e1 = Some (lit ''execution reverted: Not the owner'')"
    and m2: "message ?e2 = Some (lit ''user rejected transaction'')"
    by simp_all
  have o1: "sublist (lit ''owner'') (lit ''execution reverted: Not the owner'')"
    by (simp add: lit_def flip: includes_str_sublist)
  have o2: "\<not> sublist (lit ''owner'') (lit ''user rejected transaction'')"
    by (simp add: lit_def flip: includes_str_sublist)
  have t: "toasts ex_world = []"
    by (simp add: ex_world_def)
  from deleteTask_rejection_classified [OF acc con r1 m1, of ex_world] o1 t
  have p1: "toasts (deleteTask ex_component ?env1 1 ex_world)
      = [ToastError (lit ''You are not the owner of this task'')]"
    by simp
  from deleteTask_rejection_classified [OF acc con r2 m2, of ex_world] o2 t
  have p2: "toasts (deleteTask ex_component ?env2 1 ex_world)
      = [ToastInfo (lit ''Deleting task... Please wait for confirmation''),
         ToastError (lit ''user rejected transaction'')]"
    by simp
  from p1 p2 show ?thesis by simp
qed

subsection \<open>C5: a mutation called while another is outstanding\<close>

text \<open>
  C5 says that a mutation called while another is outstanding is refused and issues no
  call. While deleteTask(3) awaits its confirmation, deleteTask(1) issues its own delete
  call and ends with the success notification.
\<close>

theorem no_busy_rejection_counterexample:
  "loading (comp ex_busy) \<and> calls ex_busy = [DeleteTask 3 100000]
   \<and> calls (deleteTask (comp ex_busy) ex_env 1 ex_busy)
       = [DeleteTask 3 100000, DeleteTask 1 100000, Wait, GetMyTask]
   \<and> toasts (deleteTask (comp ex_busy) ex_env 1 ex_busy)
       = [ToastInfo (lit ''Deleting task... Please wait for confirmation''),
          ToastSuccess (lit ''Task deleted successfully!'')]"
  by (simp add: ex_busy_def ex_world_def ex_component_def ex_env_def ex_receipt_def deleteTask_def
      loadTasks_def find_event_def falsy_def state_defs lit_def ex_task_def
      toNumber_small double_sub_small)

text \<open>
  C5, as the code has it. addTask and deleteTask never read the loading flag and have no
  refusal for a call made while another mutation is outstanding: called while loading is
  set, with an account connected and the contract bound, deleteTask issues its delete call
  as usual, and so does addTask for a valid draft.
\<close>

theorem mutations_ignore_loading:
  assumes "loading (comp w)" and "\<not> falsy (account r)" and "contract r = Some c"
  shows "(\<exists>rest. calls (deleteTask r env taskId w) = calls w @ DeleteTask taskId 100000 # rest)
     \<and> (valid_draft (newTask r) \<longrightarrow>
          (\<exists>rest. calls (addTask r env w)
             = calls w @ AddTask (trim (draft_text (newTask r))) (trim (draft_title (newTask r)))
                           False 200000 # rest))"
  using calls_deleteTask [OF assms(2,3), of env taskId w] calls_addTask [OF assms(2,3), of env w]
  by auto

text \<open>
  The theorem at the world where deleteTask(3) is outstanding, for the handler of the
  render that shows loading.
\<close>

theorem mutations_ignore_loading_witness:
  "loading (comp ex_busy)
   \<and> (\<exists>rest. calls (deleteTask (comp ex_busy) ex_env 1 ex_busy)
         = calls ex_busy @ DeleteTask 1 100000 # rest)
   \<and> (\<exists>rest. calls (addTask (comp ex_busy) ex_env ex_busy)
         = calls ex_busy @ AddTask (lit ''B'') (lit ''A'') False 200000 # rest)"
proof -
  have h: "loading (comp ex_busy)" "\<not> falsy (account (comp ex_busy))"
    "contract (comp ex_busy) = Some (Contract contractAddress)"
    by (simp_all add: ex_busy_def ex_world_def ex_component_def falsy_def lit_def state_defs)
  have v: "valid_draft (newTask (comp ex_busy))"
    "trim (draft_text (newTask (comp ex_busy))) = lit ''B''"
    "trim (draft_title (newTask (comp ex_busy))) = lit ''A''"
    by (simp_all add: valid_draft_def trim_def isWhiteSpace_def ex_busy_def ex_world_def
        ex_component_def lit_def state_defs)
  from mutations_ignore_loading [OF h, of ex_env 1] v h(1) show ?thesis
    by simp
qed

subsection \<open>C6: an accountsChanged notification with no account\<close>

text \<open>
  C6 says that the task list becomes empty. The listener registered by initializeWeb3 in
  App only sets the account: a list of one task is still there afterwards.
\<close>

theorem listener_keeps_tasks_counterexample:
  "app_tasks (app_comp ex_app_world) = [ex_task 1 False]
   \<and> app_tasks (app_comp (accountsChanged_listener [] ex_app_world)) \<noteq> []"
  by (simp add: accountsChanged_listener_def ex_app_world_def)

text \<open>
  C6, as the code has it. On an empty account list handleAccountChange (TaskApp) sets the
  account to the empty string and the task list to the empty list, without any call; the
  listener of App sets the account to undefined and leaves the task list as it was.
\<close>

theorem empty_accounts_notification:
  "account (comp (handleAccountChange r env [] w)) = Some []
   \<and> tasks (comp (handleAccountChange r env [] w)) = []
   \<and> toasts (handleAccountChange r env [] w) = toasts w @ [ToastInfo (lit ''Wallet disconnected'')]
   \<and> calls (handleAccountChange r env [] w) = calls w
   \<and> app_account (app_comp (accountsChanged_listener [] w')) = None
   \<and> app_tasks (app_comp (accountsChanged_listener [] w')) = app_tasks (app_comp w')"
  by (simp add: handleAccountChange_def accountsChanged_listener_def state_defs)

text \<open>
  The theorem at a connected TaskApp and a connected App, each holding one task.
\<close>

theorem empty_accounts_notification_witness:
  "falsy (account (comp (handleAccountChange ex_component ex_env [] ex_world)))
   \<and> tasks (comp (handleAccountChange ex_component ex_env [] ex_world)) = []
   \<and> app_tasks (app_comp (accountsChanged_listener [] ex_app_world)) = [ex_task 1 False]"
  using empty_accounts_notification [of ex_component ex_env ex_world ex_app_world]
  by (simp add: falsy_def ex_app_world_def)

subsection \<open>C7: connecting on the wrong network\<close>

text \<open>
  C7. When the wallet provider is present and the chain id of the active network differs
  from the expected one, connectWallet shows the wrong-network notification, leaves
  account, contract handle and task list as they were, and the only call it issues is
  getNetwork: no account authorisation is requested.
\<close>

theorem wrong_network_aborts_connect:
  assumes "window_ethereum env" and "provider_getNetwork env = Inr chainId"
    and "chainId \<noteq> expectedNetwork"
  shows "toasts (connectWallet r env w)
           = toasts w @ [ToastError (lit ''Please connect to the correct network!'')]
     \<and> account (comp (connectWallet r env w)) = account (comp w)
     \<and> contract (comp (connectWallet r env w)) = contract (comp w)
     \<and> tasks (comp (connectWallet r env w)) = tasks (comp w)
     \<and> calls (connectWallet r env w) = calls w @ [GetNetwork]"
  using assms by (simp add: connectWallet_def checkNetwork_def state_defs)

text \<open>
  The theorem at chain id 11155111, starting disconnected.
\<close>

theorem wrong_network_aborts_connect_witness:
  "toasts (connectWallet (comp ex_disconnected) (ex_env\<lparr>provider_getNetwork := Inr 11155111\<rparr>) ex_disconnected)
       = [ToastError (lit ''Please connect to the correct network!'')]
   \<and> account (comp (connectWallet (comp ex_disconnected) (ex_env\<lparr>provider_getNetwork := Inr 11155111\<rparr>) ex_disconnected))
       = Some []
   \<and> contract (comp (connectWallet (comp ex_disconnected) (ex_env\<lparr>provider_getNetwork := Inr 11155111\<rparr>) ex_disconnected))
       = None
   \<and> calls (connectWallet (comp ex_disconnected) (ex_env\<lparr>provider_getNetwork := Inr 11155111\<rparr>) ex_disconnected)
       = [GetNetwork]"
  using wrong_network_aborts_connect
    [of "ex_env\<lparr>provider_getNetwork := Inr 11155111\<rparr>" 11155111 "comp ex_disconnected" ex_disconnected]
  by (simp add: ex_env_def ex_disconnected_def expectedNetwork_def)

subsection \<open>C8: a failed load keeps the list\<close>

text \<open>
  C8. When the fetch of loadTasks fails, every state cell except loading (which is reset
  to false) is as before: the task list is retained, account and contract handle are
  kept; the failure is shown as a notification.
\<close>

theorem failed_load_keeps_list:
  assumes "\<not> falsy (account r)" and "taskContract = Some c" and "contract_getMyTask env = Inl e"
  shows "comp (loadTasks r env taskContract w) = (comp w)\<lparr>loading := False\<rparr>
     \<and> toasts (loadTasks r env taskContract w)
         = toasts w @ [ToastError (lit ''Error loading tasks: '' @ ToString (reason_or_message e))]
     \<and> calls (loadTasks r env taskContract w) = calls w @ [GetMyTask]"
  using assms by (simp add: loadTasks_def state_defs)

text \<open>
  The theorem at a fetch that fails with the text "timeout".
\<close>

theorem failed_load_keeps_list_witness:
  "tasks (comp (loadTasks ex_component
      (ex_env\<lparr>contract_getMyTask := Inl \<lparr>reason = None, message = Some (lit ''timeout'')\<rparr>\<rparr>)
      (Some (Contract contractAddress)) ex_world)) = [ex_task 1 False]
   \<and> account (comp (loadTasks ex_component
      (ex_env\<lparr>contract_getMyTask := Inl \<lparr>reason = None, message = Some (lit ''timeout'')\<rparr>\<rparr>)
      (Some (Contract contractAddress)) ex_world)) = Some (lit ''0xAAA'')
   \<and> toasts (loadTasks ex_component
      (ex_env\<lparr>contract_getMyTask := Inl \<lparr>reason = None, message = Some (lit ''timeout'')\<rparr>\<rparr>)
      (Some (Contract contractAddress)) ex_world)
      = [ToastError (lit ''Error loading tasks: timeout'')]"
  using failed_load_keeps_list
    [of ex_component "Some (Contract contractAddress)" "Contract contractAddress"
        "ex_env\<lparr>contract_getMyTask := Inl \<lparr>reason = None, message = Some (lit ''timeout'')\<rparr>\<rparr>"
        "\<lparr>reason = None, message = Some (lit ''timeout'')\<rparr>" ex_world]
  by (simp add: ex_component_def ex_world_def ex_env_def falsy_def lit_def reason_or_message_def ToString_def)

subsection \<open>C9: loadTasks and fetchTasks\<close>




subsection \<open>C10: whitespace-only drafts, and what is sent\<close>

text \<open>
  C10. With a connected account: a draft whose title or text consists of whitespace only
  is refused with the empty-title or empty-description notification and no call is
  issued; for a valid draft and a bound contract the first call issued is the contract's
  addTask with the trimmed text and the trimmed title (then at most the confirmation wait
  and the reload).
\<close>

theorem whitespace_rejected_and_trimmed_values_sent:
  assumes "\<not> falsy (account r)"
  shows "(list_all isWhiteSpace (draft_title (newTask r)) \<or> list_all isWhiteSpace (draft_text (newTask r))
            \<longrightarrow> calls (addTask r env w) = calls w
                \<and> (\<exists>m\<in>{lit ''Task title cannot be empty'', lit ''Task description cannot be empty''}.
                      toasts (addTask r env w) = toasts w @ [ToastError m]))
     \<and> (valid_draft (newTask r) \<and> contract r \<noteq> None
            \<longrightarrow> (\<exists>rest. calls (addTask r env w)
                    = calls w @ AddTask (trim (draft_text (newTask r))) (trim (draft_title (newTask r)))
                                  False 200000 # rest
                  \<and> set rest \<subseteq> {Wait, GetMyTask}))"
proof -
  have invalid: "calls (addTask r env w) = calls w
      \<and> (\<exists>m\<in>{lit ''Task title cannot be empty'', lit ''Task description cannot be empty''}.
            toasts (addTask r env w) = toasts w @ [ToastError m])"
    if ws: "list_all isWhiteSpace (draft_title (newTask r)) \<or> list_all isWhiteSpace (draft_text (newTask r))"
  proof -
    from ws have "trim (draft_title (newTask r)) = [] \<or> trim (draft_text (newTask r)) = []"
      by (simp add: trim_eq_Nil)
    with assms show ?thesis
      by (auto simp: addTask_def validateTaskInput_def toast_error_def)
  qed
  have valid: "\<exists>rest. calls (addTask r env w)
        = calls w @ AddTask (trim (draft_text (newTask r))) (trim (draft_title (newTask r))) False 200000 # rest
      \<and> set rest \<subseteq> {Wait, GetMyTask}"
    if v: "valid_draft (newTask r) \<and> contract r \<noteq> None"
  proof -
    from v obtain c where "valid_draft (newTask r)" "contract r = Some c" by auto
    with assms show ?thesis using calls_addTask by blast
  qed
  from invalid valid show ?thesis by blast
qed

text \<open>
  The theorem at a title of three spaces, and at a draft padded with spaces.
\<close>

theorem whitespace_rejected_and_trimmed_values_sent_witness:
  "length (lit ''   '') = 3
   \<and> calls (addTask (ex_component\<lparr>newTask := \<lparr>draft_title = lit ''   '', draft_text = lit ''B''\<rparr>\<rparr>)
        ex_env ex_world) = []
   \<and> toasts (addTask (ex_component\<lparr>newTask := \<lparr>draft_title = lit ''   '', draft_text = lit ''B''\<rparr>\<rparr>)
        ex_env ex_world) = [ToastError (lit ''Task title cannot be empty'')]
   \<and> (\<exists>rest. calls (addTask (ex_component\<lparr>newTask := \<lparr>draft_title = lit '' A '', draft_text = lit ''B  ''\<rparr>\<rparr>)
        ex_env ex_world) = AddTask (lit ''B'') (lit ''A'') False 200000 # rest)"
proof -
  let ?r1 = "ex_component\<lparr>newTask := \<lparr>draft_title = lit ''   '', draft_text = lit ''B''\<rparr>\<rparr>"
  let ?r2 = "ex_component\<lparr>newTask := \<lparr>draft_title = lit '' A '', draft_text = lit ''B  ''\<rparr>\<rparr>"
  have a1: "\<not> falsy (account ?r1)" and a2: "\<not> falsy (account ?r2)"
    by (simp_all add: ex_component_def falsy_def lit_def)
  have ws: "list_all isWhiteSpace (draft_title (newTask ?r1))"
    by (simp add: lit_def isWhiteSpace_def)
  have v: "valid_draft (newTask ?r2) \<and> contract ?r2 \<noteq> None"
    by (simp add: valid_draft_def trim_def lit_def isWhiteSpace_def ex_component_def)
  have t: "trim (draft_text (newTask ?r2)) = lit ''B''" "trim (draft_title (newTask ?r2)) = lit ''A''"
    by (simp_all add: trim_def lit_def isWhiteSpace_def)
  have e: "calls ex_world = []" "toasts ex_world = []"
    by (simp_all add: ex_world_def)
  from whitespace_rejected_and_trimmed_values_sent [OF a1, of ex_env ex_world] ws
  have p1: "calls (addTask ?r1 ex_env ex_world) = []"
    "\<exists>m\<in>{lit ''Task title cannot be empty'', lit ''Task description cannot be empty''}.
        toasts (addTask ?r1 ex_env ex_world) = [ToastError m]"
    unfolding e by simp_all
  have p1': "toasts (addTask ?r1 ex_env ex_world) = [ToastError (lit ''Task title cannot be empty'')]"
    by (simp add: addTask_def validateTaskInput_def trim_def lit_def isWhiteSpace_def
        ex_component_def ex_world_def falsy_def toast_error_def)
  from whitespace_rejected_and_trimmed_values_sent [OF a2, of ex_env ex_world] v
  have p2: "\<exists>rest. calls (addTask ?r2 ex_env ex_world) = AddTask (lit ''B'') (lit ''A'') False 200000 # rest"
    unfolding e t by auto
  show ?thesis using p1(1) p1' p2 by (simp add: lit_def)
qed

end
